theory Spec2Isabelle
  imports Complex_Main "HOL-Library.Word"
begin

unbundle bit_operations_syntax

section \<open>The K204 packet decoder of \<open>K204_Excel_Logger.py\<close>\<close>

text \<open>
  The theory embeds \<open>parse_k204_packet\<close>, the one pure function of the logger. Its
  argument is a Python \<open>bytes\<close> object (what \<open>ser.read(45)\<close> returns), its result is
  \<open>None\<close> or a dictionary with the keys \<open>'unit'\<close> and \<open>'current_temperatures'\<close>.

  Conventions of the embedding:
  \<^item> a \<open>bytes\<close> object is a list of 8-bit words; indexing it gives a Python \<open>int\<close>
    (the unsigned value of the byte), modelled as \<open>int\<close>;
  \<^item> every operation of the source that can raise is a function into \<open>error + 'a\<close>, so
    an exception that leaves the function is the value \<open>Inl e\<close>; the return value
    \<open>None\<close> is \<open>Inr None\<close>, a returned dictionary is \<open>Inr (Some d)\<close>;
  \<^item> a Python \<open>float\<close> is modelled by the real number it stands for and \<open>/\<close> by
    exact division: rounding to the nearest binary64 value is outside the model;
  \<^item> the dictionary \<open>temperatures\<close> is an association list in insertion order, as
    Python dictionaries keep it.
\<close>

subsection \<open>Python values and exceptions\<close>

type_synonym byte = "8 word"

datatype error = IndexError | StructError | ZeroDivisionError

text \<open>A channel entry is either the string \<open>'OL'\<close> or a float.\<close>

datatype pyval = PyStr string | PyFloat real

record decoded_data =
  unit :: string
  current_temperatures :: "(string \<times> pyval) list"

text \<open>Sequencing of operations that may raise: the first exception wins.\<close>

definition bind_result :: "error + 'a \<Rightarrow> ('a \<Rightarrow> error + 'b) \<Rightarrow> error + 'b" where
  "bind_result r k = (case r of Inl e \<Rightarrow> Inl e | Inr v \<Rightarrow> k v)"

subsection \<open>Library operations used by the decoder\<close>

text \<open>\<open>raw_data[k]\<close> for a literal index \<open>k \<ge> 0\<close>: an \<open>int\<close> in \<open>0..255\<close>, or IndexError.\<close>

definition bytes_getitem :: "byte list \<Rightarrow> nat \<Rightarrow> error + int" where
  "bytes_getitem raw_data k =
     (if k < length raw_data then Inr (uint (raw_data ! k)) else Inl IndexError)"

text \<open>\<open>raw_data[lo:hi]\<close> for literal \<open>0 \<le> lo \<le> hi\<close>: slicing clamps and never raises.\<close>

definition bytes_slice :: "byte list \<Rightarrow> nat \<Rightarrow> nat \<Rightarrow> byte list" where
  "bytes_slice raw_data lo hi = take (hi - lo) (drop lo raw_data)"

text \<open>\<open>t[i]\<close> on a tuple, for an index \<open>i \<ge> 0\<close>.\<close>

definition tuple_getitem :: "'a list \<Rightarrow> nat \<Rightarrow> error + 'a" where
  "tuple_getitem t i = (if i < length t then Inr (t ! i) else Inl IndexError)"

text \<open>
  \<open>struct.unpack('>hhhh', buf)\<close>: the format asks for exactly four big-endian signed
  16-bit fields, that is eight bytes; any other buffer length raises \<open>struct.error\<close>.
  One field \<open>h\<close> is the two bytes read as a 16-bit two's complement number, high byte
  first.
\<close>

definition unpack_h :: "byte \<Rightarrow> byte \<Rightarrow> int" where
  "unpack_h hi lo = sint (word_cat hi lo :: 16 word)"

fun unpack_fields :: "byte list \<Rightarrow> int list" where
  "unpack_fields (hi # lo # rest) = unpack_h hi lo # unpack_fields rest"
| "unpack_fields _ = []"

definition struct_unpack_hhhh :: "byte list \<Rightarrow> error + int list" where
  "struct_unpack_hhhh buf =
     (if length buf \<noteq> 8 then Inl StructError else Inr (unpack_fields buf))"

text \<open>\<open>a / b\<close> with an \<open>int\<close> on the left and a \<open>float\<close> on the right.\<close>

definition py_truediv :: "int \<Rightarrow> real \<Rightarrow> error + real" where
  "py_truediv a b = (if b = 0 then Inl ZeroDivisionError else Inr (of_int a / b))"

text \<open>\<open>str(n)\<close> of a non-negative \<open>int\<close>, as the f-string \<open>f"T{i+1}"\<close> formats it.\<close>

definition digit_char :: "nat \<Rightarrow> char" where
  "digit_char d = char_of (48 + d)"

fun str_nat :: "nat \<Rightarrow> string" where
  "str_nat n = (if n < 10 then [digit_char n] else str_nat (n div 10) @ [digit_char (n mod 10)])"

declare str_nat.simps [simp del]

text \<open>\<open>d[k] = v\<close>: an existing key keeps its place, a new key goes to the end.\<close>

fun dict_setitem :: "('k \<times> 'v) list \<Rightarrow> 'k \<Rightarrow> 'v \<Rightarrow> ('k \<times> 'v) list" where
  "dict_setitem [] k v = [(k, v)]"
| "dict_setitem ((k', v') # d) k v =
     (if k' = k then (k, v) # d else (k', v') # dict_setitem d k v)"

text \<open>
  \<open>try: x = r  except struct.error: return None\<close>, followed by the rest \<open>k\<close> of the
  function: only \<open>struct.error\<close> is caught.
\<close>

definition except_struct_error ::
  "error + 'a \<Rightarrow> ('a \<Rightarrow> error + 'b option) \<Rightarrow> error + 'b option" where
  "except_struct_error r k =
     (case r of
        Inl e \<Rightarrow> (if e = StructError then Inr None else Inl e)
      | Inr x \<Rightarrow> k x)"

text \<open>\<open>for i in range(..): body\<close> over a loop state; an exception ends the loop.\<close>

fun for_loop :: "('s \<Rightarrow> nat \<Rightarrow> error + 's) \<Rightarrow> nat list \<Rightarrow> 's \<Rightarrow> error + 's" where
  "for_loop body [] s = Inr s"
| "for_loop body (i # rest) s = bind_result (body s i) (for_loop body rest)"

subsection \<open>The decoder\<close>

text \<open>The nested helper \<open>get_bit\<close>: \<open>bool(byte_val & (1 << bit_idx))\<close> on Python ints.\<close>

definition get_bit :: "int \<Rightarrow> nat \<Rightarrow> bool" where
  "get_bit byte_val bit_idx = (byte_val AND push_bit bit_idx 1 \<noteq> 0)"

text \<open>The two unit strings, \<open>'\<degree>C'\<close> and \<open>'\<degree>F'\<close>; the degree sign is code point 176.\<close>

definition unit_celsius :: string where
  "unit_celsius = [char_of (176::nat), CHR ''C'']"

definition unit_fahrenheit :: string where
  "unit_fahrenheit = [char_of (176::nat), CHR ''F'']"

text \<open>The body of the loop over the four channels (source lines 58 to 67).\<close>

definition channel_step ::
  "int \<Rightarrow> int \<Rightarrow> int list \<Rightarrow> (string \<times> pyval) list \<Rightarrow> nat \<Rightarrow> error + (string \<times> pyval) list" where
  "channel_step resolution_byte ol_chan_byte raw_current temperatures i =
     (let channel_key = ''T'' @ str_nat (i + 1);
          bit_set = get_bit resolution_byte i;
          divisor = (if bit_set then 1 else 10);
          is_ol = get_bit ol_chan_byte i
      in bind_result (tuple_getitem raw_current i) (\<lambda>raw.
         bind_result (py_truediv raw divisor) (\<lambda>val.
         Inr (dict_setitem temperatures channel_key
                (if is_ol then PyStr ''OL'' else PyFloat val)))))"

definition parse_k204_packet :: "byte list \<Rightarrow> error + decoded_data option" where
  "parse_k204_packet raw_data =
     (if length raw_data < 45 then Inr None
      else bind_result (bytes_getitem raw_data 0) (\<lambda>b0.
        if b0 \<noteq> 0x02 then Inr None
        else bind_result (bytes_getitem raw_data 44) (\<lambda>b44.
        if b44 \<noteq> 0x03 then Inr None
        else bind_result (bytes_getitem raw_data 1) (\<lambda>status_byte_1.
        let unit = (if status_byte_1 AND 0x80 \<noteq> 0 then unit_celsius else unit_fahrenheit)
        in bind_result (bytes_getitem raw_data 39) (\<lambda>ol_chan_byte.
        bind_result (bytes_getitem raw_data 43) (\<lambda>resolution_byte.
        except_struct_error (struct_unpack_hhhh (bytes_slice raw_data 7 15)) (\<lambda>raw_current.
        bind_result (for_loop (channel_step resolution_byte ol_chan_byte raw_current) [0..<4] [])
          (\<lambda>temperatures.
        Inr (Some \<lparr>unit = unit, current_temperatures = temperatures\<rparr>)))))))))"


subsection \<open>Vocabulary of the statements\<close>

text \<open>
  A frame is accepted when it passes both guards of the decoder: it has at least 45
  bytes, byte 0 is the start marker and byte 44 the end marker.
\<close>

definition accepted :: "byte list \<Rightarrow> bool" where
  "accepted raw_data \<longleftrightarrow>
     45 \<le> length raw_data \<and> raw_data ! 0 = 0x02 \<and> raw_data ! 44 = 0x03"

text \<open>
  A signed 16-bit big-endian integer, by arithmetic: the unsigned value of the two
  bytes, high byte first, read in two's complement.
\<close>

definition int16_be :: "byte \<Rightarrow> byte \<Rightarrow> int" where
  "int16_be hi lo =
     (let u = 256 * uint hi + uint lo in if u < 32768 then u else u - 65536)"

text \<open>The raw value of channel \<open>i\<close>: bytes \<open>7 + 2 i\<close> and \<open>8 + 2 i\<close> of the frame.\<close>

definition raw_channel :: "byte list \<Rightarrow> nat \<Rightarrow> int" where
  "raw_channel raw_data i = int16_be (raw_data ! (7 + 2 * i)) (raw_data ! (8 + 2 * i))"

text \<open>The entry expected for channel \<open>i\<close> of an accepted frame.\<close>

definition channel_entry :: "byte list \<Rightarrow> nat \<Rightarrow> pyval" where
  "channel_entry raw_data i =
     (if bit (raw_data ! 39) i then PyStr ''OL''
      else PyFloat (of_int (raw_channel raw_data i) / (if bit (raw_data ! 43) i then 1 else 10)))"

definition channel_keys :: "string list" where
  "channel_keys = [''T1'', ''T2'', ''T3'', ''T4'']"

text \<open>The offsets the wire format assigns a meaning to; all others are reserved.\<close>

definition consumed_offsets :: "nat list" where
  "consumed_offsets = [0, 1, 7, 8, 9, 10, 11, 12, 13, 14, 39, 43, 44]"

subsection \<open>Test frames\<close>

text \<open>
  A 45-byte frame with the raw channel values 235, -50, 0 and 1000, zero filler, and the
  status, over-limit and resolution bytes as given.
\<close>

definition test_frame :: "byte \<Rightarrow> byte \<Rightarrow> byte \<Rightarrow> byte list" where
  "test_frame status ol res =
     [0x02, status, 0, 0, 0, 0, 0,
      0x00, 0xEB, 0xFF, 0xCE, 0x00, 0x00, 0x03, 0xE8,
      0, 0, 0, 0, 0, 0, 0, 0, 0, 0, 0, 0, 0, 0, 0, 0, 0, 0, 0, 0, 0, 0, 0, 0,
      ol, 0, 0, 0, res, 0x03]"

text \<open>
  The frame of the end-to-end scenario of the specification, with its three stretches of
  filler (5, 24 and 3 bytes) left open.
\<close>

definition scenario_frame :: "byte list \<Rightarrow> byte list \<Rightarrow> byte list \<Rightarrow> byte list" where
  "scenario_frame f1 f2 f3 =
     [0x02, 0x80] @ f1 @ [0x00, 0xEB, 0xFF, 0xCE, 0x00, 0x00, 0x03, 0xE8] @ f2 @
     [0x02] @ f3 @ [0x01, 0x03]"

section \<open>Auxiliary facts\<close>

subsection \<open>Bytes, bits and fields\<close>

lemma uint_word_cat_16:
  "uint (word_cat (hi::byte) (lo::byte) :: 16 word) = 256 * uint hi + uint lo"
proof -
  have "uint hi < 256" "uint lo < 256" "0 \<le> uint hi" "0 \<le> uint lo"
    using uint_bounded [of hi] uint_bounded [of lo] by simp_all
  then show ?thesis
    by (simp add: word_cat_eq uint_word_ariths uint_up_ucast is_up push_bit_eq_mult
        take_bit_eq_mod unsigned_ucast_eq)
qed

lemma unpack_h_eq: "unpack_h hi lo = int16_be hi lo"
proof -
  define u where "u = 256 * uint hi + uint lo"
  have "uint hi < 256" "uint lo < 256" "0 \<le> uint hi" "0 \<le> uint lo"
    using uint_bounded [of hi] uint_bounded [of lo] by simp_all
  then have b: "0 \<le> u" "u < 65536" by (simp_all add: u_def)
  have "unpack_h hi lo = (u + 32768) mod 65536 - 32768"
    by (simp add: unpack_h_def sint_uint uint_word_cat_16 signed_take_bit_eq_take_bit_shift
        take_bit_eq_mod u_def)
  also have "\<dots> = (if u < 32768 then u else u - 65536)"
  proof (cases "u < 32768")
    case True
    with b have "(u + 32768) mod 65536 = u + 32768" by simp
    with True show ?thesis by simp
  next
    case False
    have "u + 32768 = (u - 32768) + 65536" by simp
    then have "(u + 32768) mod 65536 = ((u - 32768) + 65536) mod 65536" by (rule arg_cong)
    also have "\<dots> = (u - 32768) mod 65536" by (rule mod_add_self2)
    also have "\<dots> = u - 32768" using b False by simp
    finally show ?thesis using False by simp
  qed
  finally show ?thesis by (simp add: int16_be_def u_def Let_def)
qed

lemma get_bit_uint: "get_bit (uint (w::byte)) i = bit w i"
proof -
  have "get_bit (uint w) i = bit (uint w) i"
    unfolding get_bit_def by (rule bit_iff_and_push_bit_not_eq_0 [symmetric])
  also have "\<dots> = bit w i"
    by (auto simp add: bit_uint_iff dest: bit_imp_le_length)
  finally show ?thesis .
qed

lemma unit_bit: "(uint (w::byte) AND 0x80 \<noteq> 0) = bit w 7"
  using get_bit_uint [of w 7] by (simp add: get_bit_def)

lemma uint_marker: "(uint (w::byte) = 2) = (w = 2)" "(uint (w::byte) = 3) = (w = 3)"
  by (simp_all add: word_uint_eq_iff)

subsection \<open>The slice and the key strings\<close>

lemma take_drop_nth:
  "n + k \<le> length xs \<Longrightarrow> take k (drop n xs) = map (\<lambda>i. xs ! (n + i)) [0..<k]"
  by (rule nth_equalityI) simp_all

lemma slice_7_15:
  assumes "15 \<le> length xs"
  shows "bytes_slice xs 7 15 =
     [xs ! 7, xs ! 8, xs ! 9, xs ! 10, xs ! 11, xs ! 12, xs ! 13, xs ! 14]"
  using assms take_drop_nth [of 7 8 xs]
  by (simp add: bytes_slice_def upt_rec)

lemma unpack_slice:
  assumes "15 \<le> length xs"
  shows "struct_unpack_hhhh (bytes_slice xs 7 15) =
     Inr [int16_be (xs ! 7) (xs ! 8), int16_be (xs ! 9) (xs ! 10),
          int16_be (xs ! 11) (xs ! 12), int16_be (xs ! 13) (xs ! 14)]"
  by (simp add: slice_7_15 [OF assms] struct_unpack_hhhh_def unpack_h_eq)

lemma digit_chars:
  "digit_char (Suc 0) = CHR ''1''" "digit_char 2 = CHR ''2''"
  "digit_char 3 = CHR ''3''" "digit_char 4 = CHR ''4''"
  by (simp_all add: digit_char_def char_of_def bit_Suc_0_iff)

lemma str_nat_digits:
  "str_nat (Suc 0) = ''1''" "str_nat 2 = ''2''" "str_nat 3 = ''3''" "str_nat 4 = ''4''"
  "str_nat (Suc (Suc 0)) = ''2''"
  using str_nat.simps [of "Suc 0"] str_nat.simps [of 2] str_nat.simps [of 3]
    str_nat.simps [of 4]
  by (simp_all add: digit_chars numeral_2_eq_2 [symmetric])

subsection \<open>The loop and the whole decoder\<close>

lemma channel_step_eq:
  assumes "i < length raw_current"
  shows "channel_step (uint (res::byte)) (uint (ol::byte)) raw_current temperatures i =
     Inr (dict_setitem temperatures (''T'' @ str_nat (i + 1))
       (if bit ol i then PyStr ''OL''
        else PyFloat (of_int (raw_current ! i) / (if bit res i then 1 else 10))))"
  using assms
  by (simp add: channel_step_def Let_def bind_result_def tuple_getitem_def py_truediv_def
      get_bit_uint)

lemma loop_four:
  "for_loop (channel_step (uint (res::byte)) (uint (ol::byte)) [a, b, c, d]) [0..<4] [] =
     Inr [(''T1'', if bit ol 0 then PyStr ''OL''
                   else PyFloat (of_int a / (if bit res 0 then 1 else 10))),
          (''T2'', if bit ol 1 then PyStr ''OL''
                   else PyFloat (of_int b / (if bit res 1 then 1 else 10))),
          (''T3'', if bit ol 2 then PyStr ''OL''
                   else PyFloat (of_int c / (if bit res 2 then 1 else 10))),
          (''T4'', if bit ol 3 then PyStr ''OL''
                   else PyFloat (of_int d / (if bit res 3 then 1 else 10)))]"
proof -
  have r: "[0..<4] = [0, Suc 0, 2, 3]" by (simp add: upt_rec)
  show ?thesis
    unfolding r by (simp add: channel_step_eq bind_result_def str_nat_digits)
qed

lemma parse_accepted:
  assumes "accepted raw_data"
  shows "parse_k204_packet raw_data =
     Inr (Some \<lparr>unit = (if bit (raw_data ! 1) 7 then unit_celsius else unit_fahrenheit),
                current_temperatures =
                  [(''T1'', channel_entry raw_data 0), (''T2'', channel_entry raw_data 1),
                   (''T3'', channel_entry raw_data 2), (''T4'', channel_entry raw_data 3)]\<rparr>)"
proof -
  from assms have len: "45 \<le> length raw_data"
    and b0: "raw_data ! 0 = 2" and b44: "raw_data ! 44 = 3"
    by (simp_all add: accepted_def)
  from len have l15: "15 \<le> length raw_data" and ne: "raw_data \<noteq> []" by auto
  show ?thesis
    using len ne
    by (simp add: parse_k204_packet_def bind_result_def bytes_getitem_def b0 b44 Let_def
        unit_bit unpack_slice [OF l15] except_struct_error_def loop_four channel_entry_def
        raw_channel_def)
qed

lemma parse_rejected:
  assumes "\<not> accepted raw_data"
  shows "parse_k204_packet raw_data = Inr None"
  using assms
  by (auto simp add: parse_k204_packet_def accepted_def bind_result_def bytes_getitem_def
      uint_marker)

lemma parse_cases:
  "parse_k204_packet raw_data = Inr None \<and> \<not> accepted raw_data \<or>
   (\<exists>d. parse_k204_packet raw_data = Inr (Some d)) \<and> accepted raw_data"
  using parse_accepted [of raw_data] parse_rejected [of raw_data] by (cases "accepted raw_data") simp_all

lemma unit_strings_differ: "unit_celsius \<noteq> unit_fahrenheit"
  by (simp add: unit_celsius_def unit_fahrenheit_def)

lemma channel_index_cases: "i < 4 \<Longrightarrow> i = 0 \<or> i = 1 \<or> i = 2 \<or> i = (3::nat)"
  by arith

subsection \<open>The test frames\<close>

lemma test_frame_length: "length (test_frame status ol res) = 45"
  by (simp add: test_frame_def)

lemma test_frame_nth:
  "test_frame status ol res ! 0 = 0x02" "test_frame status ol res ! 1 = status"
  "test_frame status ol res ! 7 = 0x00" "test_frame status ol res ! 8 = 0xEB"
  "test_frame status ol res ! 9 = 0xFF" "test_frame status ol res ! 10 = 0xCE"
  "test_frame status ol res ! 11 = 0x00" "test_frame status ol res ! 12 = 0x00"
  "test_frame status ol res ! 13 = 0x03" "test_frame status ol res ! 14 = 0xE8"
  "test_frame status ol res ! 39 = ol" "test_frame status ol res ! 43 = res"
  "test_frame status ol res ! 44 = 0x03" "test_frame status ol res ! Suc 0 = status"
  by (simp_all add: test_frame_def)

lemma test_frame_accepted: "accepted (test_frame status ol res)"
  by (simp add: accepted_def test_frame_length test_frame_nth)

lemma int16_be_examples:
  "int16_be 0x00 0xEB = 235" "int16_be 0xFF 0xCE = - 50"
  "int16_be 0x00 0x00 = 0" "int16_be 0x03 0xE8 = 1000"
  by (simp_all add: int16_be_def)

lemma test_frame_raw:
  "raw_channel (test_frame status ol res) 0 = 235"
  "raw_channel (test_frame status ol res) 1 = - 50"
  "raw_channel (test_frame status ol res) 2 = 0"
  "raw_channel (test_frame status ol res) 3 = 1000"
  by (simp_all add: raw_channel_def test_frame_nth int16_be_examples)

subsection \<open>The scenario frame\<close>

lemma scenario_frame_facts:
  assumes "length f1 = 5" and "length f2 = 24" and "length f3 = 3"
  shows "length (scenario_frame f1 f2 f3) = 45"
    and "scenario_frame f1 f2 f3 ! 0 = 0x02" and "scenario_frame f1 f2 f3 ! 1 = 0x80"
    and "scenario_frame f1 f2 f3 ! 7 = 0x00" and "scenario_frame f1 f2 f3 ! 8 = 0xEB"
    and "scenario_frame f1 f2 f3 ! 9 = 0xFF" and "scenario_frame f1 f2 f3 ! 10 = 0xCE"
    and "scenario_frame f1 f2 f3 ! 11 = 0x00" and "scenario_frame f1 f2 f3 ! 12 = 0x00"
    and "scenario_frame f1 f2 f3 ! 13 = 0x03" and "scenario_frame f1 f2 f3 ! 14 = 0xE8"
    and "scenario_frame f1 f2 f3 ! 39 = 0x02" and "scenario_frame f1 f2 f3 ! 43 = 0x01"
    and "scenario_frame f1 f2 f3 ! 44 = 0x03"
  using assms by (simp_all add: scenario_frame_def nth_append)

lemma scenario_frame_decodes:
  assumes "length f1 = 5" and "length f2 = 24" and "length f3 = 3"
  shows "parse_k204_packet (scenario_frame f1 f2 f3) =
     Inr (Some \<lparr>unit = unit_celsius,
                current_temperatures = [(''T1'', PyFloat 235), (''T2'', PyStr ''OL''),
                  (''T3'', PyFloat 0), (''T4'', PyFloat 100)]\<rparr>)"
proof -
  note f = scenario_frame_facts [OF assms]
  have acc: "accepted (scenario_frame f1 f2 f3)"
    by (simp add: accepted_def f)
  from f show ?thesis
    by (simp add: parse_accepted [OF acc] channel_entry_def raw_channel_def int16_be_examples)
qed

section \<open>The claims\<close>

subsection \<open>C1: resolution scaling\<close>

text \<open>
  C1. For every accepted frame and every channel index \<open>i\<close> in \<open>[0,3]\<close>: whenever the
  channel has a decoded numeric value, that value is the raw int16 divided by 1 if bit
  \<open>i\<close> of the resolution byte (byte 43) is set, and the raw int16 divided by 10, in
  real division, if the bit is clear; and the channel has a numeric value whenever its
  over-limit bit is clear.
\<close>

theorem resolution_scaling:
  assumes "accepted raw_data" and "i < 4"
  shows "\<exists>d. parse_k204_packet raw_data = Inr (Some d) \<and>
     (\<forall>v. map_of (current_temperatures d) (channel_keys ! i) = Some (PyFloat v) \<longrightarrow>
        v = (if bit (raw_data ! 43) i then of_int (raw_channel raw_data i) / 1
             else of_int (raw_channel raw_data i) / 10)) \<and>
     (\<not> bit (raw_data ! 39) i \<longrightarrow>
        (\<exists>v. map_of (current_temperatures d) (channel_keys ! i) = Some (PyFloat v)))"
proof -
  from channel_index_cases [OF assms(2)] show ?thesis
    by (elim disjE)
      (simp_all add: parse_accepted [OF assms(1)] channel_keys_def channel_entry_def)
qed

text \<open>
  The example of the specification: raw 235 decodes to 235 with the bit set and to 23.5
  with the bit clear.
\<close>

theorem resolution_scaling_witness:
  "accepted (test_frame 0x80 0 1) \<and> accepted (test_frame 0x80 0 0) \<and> (0::nat) < 4 \<and>
   (\<exists>d. parse_k204_packet (test_frame 0x80 0 1) = Inr (Some d) \<and>
        map_of (current_temperatures d) ''T1'' = Some (PyFloat 235)) \<and>
   (\<exists>d. parse_k204_packet (test_frame 0x80 0 0) = Inr (Some d) \<and>
        map_of (current_temperatures d) ''T1'' = Some (PyFloat 23.5))"
proof -
  have n: "(0::nat) < 4" by simp
  from resolution_scaling [OF test_frame_accepted n, of "0x80" 0 1]
  have a: "\<exists>d. parse_k204_packet (test_frame 0x80 0 1) = Inr (Some d) \<and>
        map_of (current_temperatures d) ''T1'' = Some (PyFloat 235)"
    by (auto simp add: test_frame_nth test_frame_raw channel_keys_def)
  from resolution_scaling [OF test_frame_accepted n, of "0x80" 0 0]
  have b: "\<exists>d. parse_k204_packet (test_frame 0x80 0 0) = Inr (Some d) \<and>
        map_of (current_temperatures d) ''T1'' = Some (PyFloat 23.5)"
    by (auto simp add: test_frame_nth test_frame_raw channel_keys_def)
  from a b n show ?thesis by (simp add: test_frame_accepted)
qed

subsection \<open>C2: over-limit precedence\<close>

text \<open>
  C2. For every accepted frame and every channel index \<open>i\<close> in \<open>[0,3]\<close>: if bit \<open>i\<close>
  of the over-limit byte (byte 39) is set, the channel's entry is the sentinel \<open>'OL'\<close>,
  whatever the raw int16 of the channel is (raw 0 included); if the bit is clear, the
  entry is the numeric scaled value.
\<close>

theorem over_limit_precedence:
  assumes "accepted raw_data" and "i < 4"
  shows "\<exists>d. parse_k204_packet raw_data = Inr (Some d) \<and>
     map_of (current_temperatures d) (channel_keys ! i) =
       Some (if bit (raw_data ! 39) i then PyStr ''OL''
             else PyFloat (of_int (raw_channel raw_data i) /
                    (if bit (raw_data ! 43) i then 1 else 10)))"
proof -
  from channel_index_cases [OF assms(2)] show ?thesis
    by (elim disjE)
      (simp_all add: parse_accepted [OF assms(1)] channel_keys_def channel_entry_def)
qed

text \<open>
  Channel 2 of the test frame has raw value 0: with its over-limit bit set it decodes to
  \<open>'OL'\<close>, with the bit clear to the number 0.
\<close>

theorem over_limit_precedence_witness:
  "accepted (test_frame 0x80 4 0) \<and> (2::nat) < 4 \<and>
   raw_channel (test_frame 0x80 4 0) 2 = 0 \<and>
   (\<exists>d. parse_k204_packet (test_frame 0x80 4 0) = Inr (Some d) \<and>
        map_of (current_temperatures d) ''T3'' = Some (PyStr ''OL'')) \<and>
   (\<exists>d. parse_k204_packet (test_frame 0x80 0 0) = Inr (Some d) \<and>
        map_of (current_temperatures d) ''T3'' = Some (PyFloat 0))"
proof -
  have n: "(2::nat) < 4" by simp
  from over_limit_precedence [OF test_frame_accepted n, of "0x80" 4 0]
  have a: "\<exists>d. parse_k204_packet (test_frame 0x80 4 0) = Inr (Some d) \<and>
        map_of (current_temperatures d) ''T3'' = Some (PyStr ''OL'')"
    by (auto simp add: test_frame_nth test_frame_raw channel_keys_def)
  from over_limit_precedence [OF test_frame_accepted n, of "0x80" 0 0]
  have b: "\<exists>d. parse_k204_packet (test_frame 0x80 0 0) = Inr (Some d) \<and>
        map_of (current_temperatures d) ''T3'' = Some (PyFloat 0)"
    by (auto simp add: test_frame_nth test_frame_raw channel_keys_def)
  from a b n show ?thesis by (simp add: test_frame_accepted test_frame_raw)
qed

subsection \<open>C3: short and malformed input\<close>

text \<open>
  C3. The decoder raises no exception on any byte sequence; on every byte sequence
  shorter than 45 bytes, and more generally on every input that is not an accepted frame,
  it returns \<open>None\<close>.
\<close>

theorem never_raises:
  "(\<forall>e. parse_k204_packet raw_data \<noteq> Inl e) \<and>
   (length raw_data < 45 \<longrightarrow> parse_k204_packet raw_data = Inr None) \<and>
   (\<not> accepted raw_data \<longrightarrow> parse_k204_packet raw_data = Inr None)"
proof (cases "accepted raw_data")
  case True
  then have "45 \<le> length raw_data" by (simp add: accepted_def)
  with True show ?thesis by (simp add: parse_accepted)
next
  case False
  then show ?thesis by (simp add: parse_rejected)
qed

theorem never_raises_witness:
  "length ([] :: byte list) < 45 \<and> parse_k204_packet [] = Inr None \<and>
   length [0x02, 0x80 :: byte] < 45 \<and> \<not> accepted [0x02, 0x80] \<and>
   parse_k204_packet [0x02, 0x80] = Inr None \<and>
   (\<forall>e. parse_k204_packet (test_frame 0x80 2 1) \<noteq> Inl e)"
  using never_raises [of "[]"] never_raises [of "[0x02, 0x80]"]
    never_raises [of "test_frame 0x80 2 1"]
  by (simp add: accepted_def)

subsection \<open>C4: framing mismatch\<close>

text \<open>
  C4. For every byte sequence of at least 45 bytes whose byte 0 differs from the start
  marker 0x02 or whose byte 44 differs from the end marker 0x03, the decoder returns
  \<open>None\<close>: no reading and no exception.
\<close>

theorem framing_mismatch:
  assumes "45 \<le> length raw_data"
    and "raw_data ! 0 \<noteq> 0x02 \<or> raw_data ! 44 \<noteq> 0x03"
  shows "parse_k204_packet raw_data = Inr None"
proof -
  from assms(2) have "\<not> accepted raw_data" by (auto simp add: accepted_def)
  then show ?thesis by (rule parse_rejected)
qed

theorem framing_mismatch_witness:
  "45 \<le> length ((test_frame 0x80 0 0)[0 := 0x41]) \<and>
   ((test_frame 0x80 0 0)[0 := 0x41]) ! 0 \<noteq> 0x02 \<and>
   parse_k204_packet ((test_frame 0x80 0 0)[0 := 0x41]) = Inr None \<and>
   45 \<le> length ((test_frame 0x80 0 0)[44 := 0x00]) \<and>
   ((test_frame 0x80 0 0)[44 := 0x00]) ! 44 \<noteq> 0x03 \<and>
   parse_k204_packet ((test_frame 0x80 0 0)[44 := 0x00]) = Inr None"
proof -
  have l1: "45 \<le> length ((test_frame 0x80 0 0)[0 := 0x41])"
    and l2: "45 \<le> length ((test_frame 0x80 0 0)[44 := 0x00])"
    by (simp_all add: test_frame_length)
  have m1: "((test_frame 0x80 0 0)[0 := 0x41]) ! 0 \<noteq> 0x02"
    and m2: "((test_frame 0x80 0 0)[44 := 0x00]) ! 44 \<noteq> 0x03"
    by (simp_all add: test_frame_length)
  from framing_mismatch [OF l1 disjI1 [OF m1]] framing_mismatch [OF l2 disjI2 [OF m2]] l1 l2 m1 m2
  show ?thesis by simp
qed

subsection \<open>C5: the unit bit\<close>

text \<open>
  C5. For every accepted frame the decoded unit is Celsius exactly when bit 7 of byte 1
  is set and Fahrenheit exactly when it is clear; any other accepted frame with the same
  bit 7 of byte 1 decodes to the same unit, whatever its channel data and the other bits
  of byte 1 are.
\<close>

theorem unit_bit_decides:
  assumes "accepted raw_data"
  shows "\<exists>d. parse_k204_packet raw_data = Inr (Some d) \<and>
     (unit d = unit_celsius \<longleftrightarrow> bit (raw_data ! 1) 7) \<and>
     (unit d = unit_fahrenheit \<longleftrightarrow> \<not> bit (raw_data ! 1) 7) \<and>
     (\<forall>other. accepted other \<and> (bit (other ! 1) 7 \<longleftrightarrow> bit (raw_data ! 1) 7) \<longrightarrow>
        (\<exists>d'. parse_k204_packet other = Inr (Some d') \<and> unit d' = unit d))"
  using unit_strings_differ
  by (auto simp add: parse_accepted [OF assms] parse_accepted)

text \<open>
  Status byte 0x80 gives Celsius; status byte 0x7F, with every bit but bit 7 set, gives
  Fahrenheit.
\<close>

theorem unit_bit_decides_witness:
  "accepted (test_frame 0x80 2 1) \<and> accepted (test_frame 0x7F 2 1) \<and>
   (\<exists>d. parse_k204_packet (test_frame 0x80 2 1) = Inr (Some d) \<and> unit d = unit_celsius) \<and>
   (\<exists>d. parse_k204_packet (test_frame 0x7F 2 1) = Inr (Some d) \<and> unit d = unit_fahrenheit)"
proof -
  have c: "bit (0x80 :: byte) 7" and f: "\<not> bit (0x7F :: byte) 7" by simp_all
  from unit_bit_decides [OF test_frame_accepted, of "0x80" 2 1] c
  have a: "\<exists>d. parse_k204_packet (test_frame 0x80 2 1) = Inr (Some d) \<and> unit d = unit_celsius"
    by (auto simp add: test_frame_nth)
  from unit_bit_decides [OF test_frame_accepted, of "0x7F" 2 1] f
  have b: "\<exists>d. parse_k204_packet (test_frame 0x7F 2 1) = Inr (Some d) \<and> unit d = unit_fahrenheit"
    by (auto simp add: test_frame_nth)
  from a b show ?thesis by (simp add: test_frame_accepted)
qed

subsection \<open>C6: the raw channel values\<close>

text \<open>
  C6. For every accepted frame the four raw values the decoder consumes are the four
  signed 16-bit big-endian integers of bytes 7 to 14, two bytes each, and they go in that
  byte order to the entries \<open>T1\<close>, \<open>T2\<close>, \<open>T3\<close>, \<open>T4\<close>. The handler for a failed
  extraction returns \<open>None\<close>, and once the length check has passed the extraction
  cannot fail.
\<close>

theorem raw_values_big_endian:
  "(45 \<le> length raw_data \<longrightarrow>
      (\<forall>e. struct_unpack_hhhh (bytes_slice raw_data 7 15) \<noteq> Inl e) \<and>
      struct_unpack_hhhh (bytes_slice raw_data 7 15) =
        Inr [int16_be (raw_data ! 7) (raw_data ! 8), int16_be (raw_data ! 9) (raw_data ! 10),
             int16_be (raw_data ! 11) (raw_data ! 12), int16_be (raw_data ! 13) (raw_data ! 14)]) \<and>
   (accepted raw_data \<longrightarrow>
      (\<exists>d. parse_k204_packet raw_data = Inr (Some d) \<and>
        (\<forall>i < 4. current_temperatures d ! i =
           (channel_keys ! i,
            if bit (raw_data ! 39) i then PyStr ''OL''
            else PyFloat (of_int (int16_be (raw_data ! (7 + 2 * i)) (raw_data ! (8 + 2 * i))) /
                   (if bit (raw_data ! 43) i then 1 else 10)))))) \<and>
   except_struct_error (Inl StructError) rest = Inr None"
proof (intro conjI impI)
  assume len: "45 \<le> length raw_data"
  then have l15: "15 \<le> length raw_data" by simp
  show u: "struct_unpack_hhhh (bytes_slice raw_data 7 15) =
        Inr [int16_be (raw_data ! 7) (raw_data ! 8), int16_be (raw_data ! 9) (raw_data ! 10),
             int16_be (raw_data ! 11) (raw_data ! 12), int16_be (raw_data ! 13) (raw_data ! 14)]"
    by (rule unpack_slice [OF l15])
  show "\<forall>e. struct_unpack_hhhh (bytes_slice raw_data 7 15) \<noteq> Inl e"
    by (simp add: u)
next
  assume acc: "accepted raw_data"
  have "\<forall>i < 4. [(''T1'', channel_entry raw_data 0), (''T2'', channel_entry raw_data 1),
                   (''T3'', channel_entry raw_data 2), (''T4'', channel_entry raw_data 3)] ! i =
           (channel_keys ! i,
            if bit (raw_data ! 39) i then PyStr ''OL''
            else PyFloat (of_int (int16_be (raw_data ! (7 + 2 * i)) (raw_data ! (8 + 2 * i))) /
                   (if bit (raw_data ! 43) i then 1 else 10)))"
  proof (intro allI impI)
    fix i :: nat assume "i < 4"
    from channel_index_cases [OF this]
    show "[(''T1'', channel_entry raw_data 0), (''T2'', channel_entry raw_data 1),
                   (''T3'', channel_entry raw_data 2), (''T4'', channel_entry raw_data 3)] ! i =
           (channel_keys ! i,
            if bit (raw_data ! 39) i then PyStr ''OL''
            else PyFloat (of_int (int16_be (raw_data ! (7 + 2 * i)) (raw_data ! (8 + 2 * i))) /
                   (if bit (raw_data ! 43) i then 1 else 10)))"
      by (elim disjE) (simp_all add: channel_keys_def channel_entry_def raw_channel_def)
  qed
  then show "\<exists>d. parse_k204_packet raw_data = Inr (Some d) \<and>
        (\<forall>i < 4. current_temperatures d ! i =
           (channel_keys ! i,
            if bit (raw_data ! 39) i then PyStr ''OL''
            else PyFloat (of_int (int16_be (raw_data ! (7 + 2 * i)) (raw_data ! (8 + 2 * i))) /
                   (if bit (raw_data ! 43) i then 1 else 10))))"
    by (simp add: parse_accepted [OF acc])
next
  show "except_struct_error (Inl StructError) rest = Inr None"
    by (simp add: except_struct_error_def)
qed

theorem raw_values_big_endian_witness:
  "45 \<le> length (test_frame 0x80 0 0) \<and> accepted (test_frame 0x80 0 0) \<and>
   struct_unpack_hhhh (bytes_slice (test_frame 0x80 0 0) 7 15) = Inr [235, - 50, 0, 1000] \<and>
   (\<exists>d. parse_k204_packet (test_frame 0x80 0 0) = Inr (Some d) \<and>
      current_temperatures d ! 1 = (''T2'', PyFloat (- 5)))"
proof -
  have l: "45 \<le> length (test_frame 0x80 0 0)" by (simp add: test_frame_length)
  have n: "(1::nat) < 4" by simp
  have z: "\<not> bit (0 :: byte) 1" by simp
  note r = raw_values_big_endian
    [of "test_frame 0x80 0 0" "\<lambda>raw_current :: int list. Inr (None :: decoded_data option)"]
  from r l have a: "struct_unpack_hhhh (bytes_slice (test_frame 0x80 0 0) 7 15) = Inr [235, - 50, 0, 1000]"
    by (simp add: test_frame_nth int16_be_examples)
  from r test_frame_accepted [of "0x80" 0 0] obtain d where
    d: "parse_k204_packet (test_frame 0x80 0 0) = Inr (Some d)"
    and e: "\<forall>i < 4. current_temperatures d ! i =
           (channel_keys ! i,
            if bit (test_frame 0x80 0 0 ! 39) i then PyStr ''OL''
            else PyFloat (of_int (int16_be (test_frame 0x80 0 0 ! (7 + 2 * i)) (test_frame 0x80 0 0 ! (8 + 2 * i))) /
                   (if bit (test_frame 0x80 0 0 ! 43) i then 1 else 10)))"
    by blast
  from e n have "current_temperatures d ! 1 = (''T2'', PyFloat (- 5))"
    by (simp add: test_frame_nth int16_be_examples channel_keys_def)
  with d a l show ?thesis by (auto simp add: test_frame_accepted)
qed

subsection \<open>C8: always four channels\<close>

text \<open>
  C8. Whenever the decoder returns a reading, its channel mapping has exactly the four
  keys \<open>T1\<close>, \<open>T2\<close>, \<open>T3\<close>, \<open>T4\<close>, in this order; no channel is missing, each is
  either the sentinel \<open>'OL'\<close> or a number.
\<close>

theorem four_channels:
  assumes "parse_k204_packet raw_data = Inr (Some d)"
  shows "map fst (current_temperatures d) = [''T1'', ''T2'', ''T3'', ''T4''] \<and>
     length (current_temperatures d) = 4 \<and>
     (\<forall>k \<in> set channel_keys. \<exists>v. map_of (current_temperatures d) k = Some v \<and>
        (v = PyStr ''OL'' \<or> (\<exists>x. v = PyFloat x)))"
proof -
  from assms parse_rejected [of raw_data] have acc: "accepted raw_data" by auto
  from assms show ?thesis
    by (auto simp add: parse_accepted [OF acc] channel_keys_def channel_entry_def)
qed

text \<open>
  With all four over-limit bits set every channel is still present, as \<open>'OL'\<close>.
\<close>

theorem four_channels_witness:
  "parse_k204_packet (test_frame 0x80 15 0) =
     Inr (Some \<lparr>unit = unit_celsius,
                current_temperatures = [(''T1'', PyStr ''OL''), (''T2'', PyStr ''OL''),
                  (''T3'', PyStr ''OL''), (''T4'', PyStr ''OL'')]\<rparr>) \<and>
   map fst [(''T1'', PyStr ''OL''), (''T2'', PyStr ''OL''),
            (''T3'', PyStr ''OL''), (''T4'', PyStr ''OL'')] = [''T1'', ''T2'', ''T3'', ''T4'']"
proof -
  have p: "parse_k204_packet (test_frame 0x80 15 0) =
     Inr (Some \<lparr>unit = unit_celsius,
                current_temperatures = [(''T1'', PyStr ''OL''), (''T2'', PyStr ''OL''),
                  (''T3'', PyStr ''OL''), (''T4'', PyStr ''OL'')]\<rparr>)"
    by (simp add: parse_accepted [OF test_frame_accepted] test_frame_nth channel_entry_def)
  from four_channels [OF p] p show ?thesis by simp
qed

subsection \<open>C7: the end-to-end scenario\<close>

text \<open>
  C7 as stated: the scenario frame (start marker, status 0x80, raw values 235, -50, 0,
  1000, over-limit byte 0b0010, resolution byte 0b0001, end marker) decodes to Celsius
  with \<open>T1 = 23.5\<close>, \<open>T2 = -5.0\<close>, \<open>T3 = OL\<close>, \<open>T4 = 100.0\<close>. With zero filler the
  decoder returns something else: bit 0 of the resolution byte selects divisor 1 for
  \<open>T1\<close>, and bit 1 of the over-limit byte marks \<open>T2\<close>, not \<open>T3\<close>.
\<close>

theorem scenario_as_claimed_counterexample:
  "parse_k204_packet (scenario_frame (replicate 5 0) (replicate 24 0) (replicate 3 0)) \<noteq>
     Inr (Some \<lparr>unit = unit_celsius,
                current_temperatures = [(''T1'', PyFloat 23.5), (''T2'', PyFloat (- 5)),
                  (''T3'', PyStr ''OL''), (''T4'', PyFloat 100)]\<rparr>)"
  by (simp add: scenario_frame_decodes)

text \<open>
  C7, amended. For the scenario frame, whatever its filler bytes are, the decoder returns
  unit Celsius with \<open>T1 = 235.0\<close>, \<open>T2 = OL\<close>, \<open>T3 = 0.0\<close> and \<open>T4 = 100.0\<close>.
\<close>

theorem scenario_as_decoded:
  assumes "length f1 = 5" and "length f2 = 24" and "length f3 = 3"
  shows "parse_k204_packet (scenario_frame f1 f2 f3) =
     Inr (Some \<lparr>unit = unit_celsius,
                current_temperatures = [(''T1'', PyFloat 235), (''T2'', PyStr ''OL''),
                  (''T3'', PyFloat 0), (''T4'', PyFloat 100)]\<rparr>)"
  using assms by (rule scenario_frame_decodes)

theorem scenario_as_decoded_witness:
  "length (replicate 5 (0::byte)) = 5 \<and> length (replicate 24 (0::byte)) = 24 \<and>
   length (replicate 3 (0::byte)) = 3 \<and>
   parse_k204_packet (scenario_frame (replicate 5 0) (replicate 24 0) (replicate 3 0)) =
     Inr (Some \<lparr>unit = unit_celsius,
                current_temperatures = [(''T1'', PyFloat 235), (''T2'', PyStr ''OL''),
                  (''T3'', PyFloat 0), (''T4'', PyFloat 100)]\<rparr>)"
  using scenario_as_decoded [of "replicate 5 0" "replicate 24 0" "replicate 3 0"]
  by simp

subsection \<open>C9: reserved bytes do not interfere\<close>

text \<open>
  C9. Any two 45-byte frames that agree on bytes 0, 1, 7 to 14, 39, 43 and 44 decode to
  equal results, however they differ on the other bytes. Taking the same frame twice,
  decoding is deterministic.
\<close>

theorem reserved_bytes_ignored:
  assumes "length xs = 45" and "length ys = 45"
    and "\<forall>k \<in> set consumed_offsets. xs ! k = ys ! k"
  shows "parse_k204_packet xs = parse_k204_packet ys"
proof -
  from assms(3) have eq:
    "xs ! 0 = ys ! 0" "xs ! 1 = ys ! 1" "xs ! 7 = ys ! 7" "xs ! 8 = ys ! 8"
    "xs ! 9 = ys ! 9" "xs ! 10 = ys ! 10" "xs ! 11 = ys ! 11" "xs ! 12 = ys ! 12"
    "xs ! 13 = ys ! 13" "xs ! 14 = ys ! 14" "xs ! 39 = ys ! 39" "xs ! 43 = ys ! 43"
    "xs ! 44 = ys ! 44"
    by (simp_all add: consumed_offsets_def)
  have acc: "accepted xs \<longleftrightarrow> accepted ys"
    by (simp add: accepted_def assms(1,2) eq)
  have ch: "channel_entry xs 0 = channel_entry ys 0" "channel_entry xs 1 = channel_entry ys 1"
    "channel_entry xs 2 = channel_entry ys 2" "channel_entry xs 3 = channel_entry ys 3"
    by (simp_all add: channel_entry_def raw_channel_def eq)
  show ?thesis
  proof (cases "accepted xs")
    case True
    with acc have "accepted ys" by simp
    with True eq ch show ?thesis by (simp add: parse_accepted)
  next
    case False
    with acc have "\<not> accepted ys" by simp
    with False show ?thesis by (simp add: parse_rejected)
  qed
qed

theorem reserved_bytes_ignored_witness:
  "length (test_frame 0x80 2 1) = 45 \<and>
   length ((test_frame 0x80 2 1)[2 := 0xFF, 20 := 0xAA, 40 := 0x55]) = 45 \<and>
   list_all (\<lambda>k. test_frame 0x80 2 1 ! k =
      (test_frame 0x80 2 1)[2 := 0xFF, 20 := 0xAA, 40 := 0x55] ! k) consumed_offsets \<and>
   test_frame 0x80 2 1 \<noteq> (test_frame 0x80 2 1)[2 := 0xFF, 20 := 0xAA, 40 := 0x55] \<and>
   parse_k204_packet (test_frame 0x80 2 1) =
     parse_k204_packet ((test_frame 0x80 2 1)[2 := 0xFF, 20 := 0xAA, 40 := 0x55])"
proof -
  have l: "length (test_frame 0x80 2 1) = 45"
    "length ((test_frame 0x80 2 1)[2 := 0xFF, 20 := 0xAA, 40 := 0x55]) = 45"
    by (simp_all add: test_frame_length)
  have a: "\<forall>k \<in> set consumed_offsets.
      test_frame 0x80 2 1 ! k = (test_frame 0x80 2 1)[2 := 0xFF, 20 := 0xAA, 40 := 0x55] ! k"
    by (simp add: consumed_offsets_def)
  have d: "test_frame 0x80 2 1 \<noteq> (test_frame 0x80 2 1)[2 := 0xFF, 20 := 0xAA, 40 := 0x55]"
    by (simp add: test_frame_def)
  from reserved_bytes_ignored [OF l a] l a d show ?thesis by (simp add: list_all_iff)
qed

subsection \<open>C10: over-length input\<close>

text \<open>
  C10. A byte sequence longer than 45 bytes whose byte 0 is 0x02 and whose byte 44 is
  0x03 is decoded, not rejected, and its result is that of its first 45 bytes: whatever
  follows index 44 has no effect.
\<close>

theorem over_length_input:
  assumes "45 < length raw_data" and "raw_data ! 0 = 0x02" and "raw_data ! 44 = 0x03"
  shows "(\<exists>d. parse_k204_packet raw_data = Inr (Some d)) \<and>
     parse_k204_packet raw_data = parse_k204_packet (take 45 raw_data) \<and>
     (\<forall>tail. parse_k204_packet (take 45 raw_data @ tail) = parse_k204_packet raw_data)"
proof -
  from assms have acc: "accepted raw_data" by (simp add: accepted_def)
  have pre: "accepted (take 45 raw_data @ tail)" for tail
    using assms by (simp add: accepted_def nth_append)
  have same: "parse_k204_packet (take 45 raw_data @ tail) = parse_k204_packet raw_data" for tail
    using assms
    by (simp add: parse_accepted [OF acc] parse_accepted [OF pre] channel_entry_def
        raw_channel_def nth_append)
  from same [of "[]"] same acc show ?thesis
    by (simp add: parse_accepted)
qed

theorem over_length_input_witness:
  "45 < length (test_frame 0x80 2 1 @ [0xFF, 0x02, 0x03]) \<and>
   (test_frame 0x80 2 1 @ [0xFF, 0x02, 0x03]) ! 0 = 0x02 \<and>
   (test_frame 0x80 2 1 @ [0xFF, 0x02, 0x03]) ! 44 = 0x03 \<and>
   (\<exists>d. parse_k204_packet (test_frame 0x80 2 1 @ [0xFF, 0x02, 0x03]) = Inr (Some d)) \<and>
   parse_k204_packet (test_frame 0x80 2 1 @ [0xFF, 0x02, 0x03]) =
     parse_k204_packet (test_frame 0x80 2 1)"
proof -
  have h: "45 < length (test_frame 0x80 2 1 @ [0xFF, 0x02, 0x03])"
    "(test_frame 0x80 2 1 @ [0xFF, 0x02, 0x03]) ! 0 = 0x02"
    "(test_frame 0x80 2 1 @ [0xFF, 0x02, 0x03]) ! 44 = 0x03"
    by (simp_all add: test_frame_length nth_append test_frame_nth)
  from over_length_input [OF h] h show ?thesis
    by (auto simp add: test_frame_length)
qed

end
